theory Spec2Isabelle
  imports Complex_Main "HOL-Library.AList"
begin

section \<open>The world map of cozmo\_fsm (worldmap.py)\<close>

text \<open>
  A shallow embedding of \<^verbatim>\<open>src/cozmo_fsm/worldmap.py\<close>: the world objects, the wall
  catalog \<^verbatim>\<open>wall_marker_dict\<close> with the \<^verbatim>\<open>WallSpec\<close> constructor that fills it, and the
  methods of \<^verbatim>\<open>WorldMap\<close>.

  Modelling decisions.
  \<^item> Python numbers that hold lengths, coordinates and angles are \<open>real\<close>; identifiers
    (marker ids, wall ids, cube ids) are \<open>int\<close>. Rounding of floating-point arithmetic is
    not modelled.
  \<^item> An SDK object (a cube, a custom object) is known to the map by its identity only: it is
    a dictionary key and is compared with \<^verbatim>\<open>==\<close>. Identities are \<open>handle\<close>s, and the data
    the SDK currently holds for a handle is read from a store.
  \<^item> The operations of the SDK on poses (\<^verbatim>\<open>is_comparable\<close>, the difference of two poses)
    belong to an external library; they are parameters of the model.
  \<^item> A method that mutates the map returns the exception it raised, if any, together with
    the map as it is when the method returns or raises.
\<close>

subsection \<open>Exceptions\<close>

datatype error = IndexError | KeyError | ValueError | AttributeError | TypeError

subsection \<open>What the SDK provides\<close>

type_synonym handle = nat

text \<open>
  Of a pose the module reads \<^verbatim>\<open>position.x_y_z\<close>, \<^verbatim>\<open>position.z\<close> and
  \<^verbatim>\<open>rotation.angle_z.radians\<close>.
\<close>

record pose =
  x_y_z :: "real \<times> real \<times> real"
  angle_z :: real

definition position_z :: "pose \<Rightarrow> real" where
  "position_z p = (case x_y_z p of (_, _, pz) \<Rightarrow> pz)"

text \<open>
  The value of an \<^verbatim>\<open>id\<close> attribute: \<^verbatim>\<open>None\<close>, an integer, a custom object type, or an
  instance of \<^verbatim>\<open>CustomObject\<close> with its \<^verbatim>\<open>x_size_mm\<close>, \<^verbatim>\<open>y_size_mm\<close> and
  \<^verbatim>\<open>z_size_mm\<close> (the case \<^verbatim>\<open>isinstance(id, CustomObject)\<close> of \<^verbatim>\<open>CustomCubeObj\<close>).
\<close>

datatype py_id = NoneId | IntId int | TypeId nat | CustomObjectId real real real

datatype sdk_class = LightCube | CustomObject | OtherClass

record sdk_obj =
  cls :: sdk_class
  pose :: "pose option"
  is_visible :: bool
  object_type :: py_id

record sdk =
  objs :: "handle \<Rightarrow> sdk_obj"
  is_comparable :: "pose \<Rightarrow> pose \<Rightarrow> bool"
  pose_sub :: "pose \<Rightarrow> pose \<Rightarrow> pose"

text \<open>
  A landmark of the particle filter's sensor model is a tuple \<^verbatim>\<open>(mu, orient, sigma)\<close>;
  of the matrix \<^verbatim>\<open>mu\<close> the module reads \<^verbatim>\<open>mu[0,0]\<close> and \<^verbatim>\<open>mu[1,0]\<close>.
\<close>

type_synonym landmark = "(real \<times> real) \<times> real \<times> real list list"

text \<open>
  The robot: \<^verbatim>\<open>robot.pose\<close>, \<^verbatim>\<open>robot.world.light_cubes\<close> (the items of the dictionary,
  in its order), \<^verbatim>\<open>robot.world.particle_filter.pose\<close> and
  \<^verbatim>\<open>robot.world.particle_filter.sensor_model.landmarks\<close> (items, in order).
\<close>

record robot =
  robot_pose :: pose
  light_cubes :: "(int \<times> handle) list"
  particle_pose :: "real \<times> real \<times> real"
  landmarks :: "(int \<times> landmark) list"

subsection \<open>World objects\<close>

text \<open>
  \<^verbatim>\<open>WorldObject\<close> has the attributes \<^verbatim>\<open>id, x, y, z, obstacle, is_visible\<close>; the three
  subclasses the map creates add \<^verbatim>\<open>theta\<close> and their own attributes, kept in
  \<open>obj_fields\<close>. (\<^verbatim>\<open>ChipObj\<close> is never created by the map and is left out.)
\<close>

datatype obj_fields =
    WallFields (wall_length: real) (wall_height: real) (wall_door_width: real)
      (wall_door_height: real)
  | LightCubeFields (cube_sdk_obj: handle) (cube_size: "real \<times> real \<times> real")
  | CustomCubeFields (custom_sdk_obj: handle) (custom_size: "real \<times> real \<times> real")

record world_obj =
  obj_id :: py_id
  obj_x :: real
  obj_y :: real
  obj_z :: real
  obstacle :: bool
  obj_is_visible :: bool
  theta :: real
  own_fields :: obj_fields

text \<open>\<^verbatim>\<open>WorldObject.__init__(id, x, y, z, is_visible)\<close>; the subclass sets the rest.\<close>

definition WorldObject :: "py_id \<Rightarrow> real \<Rightarrow> real \<Rightarrow> real \<Rightarrow> bool \<Rightarrow> real \<Rightarrow> obj_fields \<Rightarrow> world_obj" where
  "WorldObject i px py pz vis th fs =
     \<lparr>obj_id = i, obj_x = px, obj_y = py, obj_z = pz, obstacle = True,
      obj_is_visible = vis, theta = th, own_fields = fs\<rparr>"

text \<open>
  \<^verbatim>\<open>WallObj.__init__(id, x, y, theta, length, height, door_width, door_height)\<close>:
  the base class is initialised with \<^verbatim>\<open>(id, x, y)\<close>, so \<^verbatim>\<open>z = 0\<close> and
  \<^verbatim>\<open>is_visible = False\<close>; then \<^verbatim>\<open>z = height/2\<close>.
\<close>

definition WallObj :: "py_id \<Rightarrow> real \<Rightarrow> real \<Rightarrow> real \<Rightarrow> real \<Rightarrow> real \<Rightarrow> real \<Rightarrow> real \<Rightarrow> world_obj" where
  "WallObj i px py th len height door_width door_height =
     (WorldObject i px py 0 False th (WallFields len height door_width door_height))
       \<lparr>obj_z := height / 2\<rparr>"

text \<open>The default of \<^verbatim>\<open>door_width\<close> in \<^verbatim>\<open>WallObj.__init__\<close>.\<close>

definition WallObj_default_door_width :: real where
  "WallObj_default_door_width = 75"

text \<open>
  \<^verbatim>\<open>LightCubeObj.__init__(sdk_obj, id, x, y, z, theta)\<close>; \<^verbatim>\<open>is_visible\<close> is read from
  the SDK object.
\<close>

definition light_cube_size :: "real \<times> real \<times> real" where
  "light_cube_size = (44, 44, 44)"

definition LightCubeObj :: "sdk \<Rightarrow> handle \<Rightarrow> py_id \<Rightarrow> real \<Rightarrow> real \<Rightarrow> real \<Rightarrow> real \<Rightarrow> world_obj" where
  "LightCubeObj s h i px py pz th =
     (WorldObject i px py pz False th (LightCubeFields h light_cube_size))
       \<lparr>obj_is_visible := is_visible (objs s h)\<rparr>"

text \<open>
  \<^verbatim>\<open>CustomCubeObj.__init__(sdk_obj, id, x, y, z, theta, size)\<close>. A size that is given is
  a triple, which is true in a condition.
\<close>

definition CustomCubeObj ::
  "sdk \<Rightarrow> handle \<Rightarrow> py_id \<Rightarrow> real \<Rightarrow> real \<Rightarrow> real \<Rightarrow> real \<Rightarrow> (real \<times> real \<times> real) option \<Rightarrow> world_obj" where
  "CustomCubeObj s h i px py pz th sz =
     (WorldObject i px py pz False th
        (CustomCubeFields h
           (case (sz, i) of
              (None, CustomObjectId sx sy sz') \<Rightarrow> (sx, sy, sz')
            | (Some given, _) \<Rightarrow> given
            | (None, _) \<Rightarrow> (50, 50, 50))))
       \<lparr>obj_is_visible := is_visible (objs s h)\<rparr>"

subsection \<open>Angles\<close>

text \<open>
  Modelled from the spec: \<^verbatim>\<open>wrap_angle\<close> is imported from the module \<^verbatim>\<open>transform\<close>,
  which is not among the sources. The specification describes it as the normalisation of an
  angle to the interval \<open>(-\<pi>, \<pi>]\<close>: the angle is moved by the multiple of \<open>2\<pi>\<close> that
  puts it there.
\<close>

definition wrap_angle :: "real \<Rightarrow> real" where
  "wrap_angle a = a - 2 * pi * of_int \<lceil>(a - pi) / (2 * pi)\<rceil>"

subsection \<open>The map\<close>

text \<open>
  \<^verbatim>\<open>WorldMap.objects\<close> is a dictionary whose keys are wall identifiers and SDK objects.
  Its values are world objects, or \<^verbatim>\<open>None\<close> where \<^verbatim>\<open>infer_wall\<close> returned nothing
  (the inner \<open>option\<close>).
\<close>

datatype key = IntKey int | HandleKey handle

record world_map =
  robot :: robot
  objects :: "key \<rightharpoonup> world_obj option"

definition vision_z_fudge :: real where
  "vision_z_fudge = 10"

text \<open>
  \<^verbatim>\<open>update_coords(world_obj, sdk_obj)\<close> computes the new coordinates and then assigns
  them to the attributes of \<^verbatim>\<open>world_obj\<close>. The difference of the poses fails on an absent
  pose (\<^verbatim>\<open>TypeError\<close>), the first assignment fails on \<^verbatim>\<open>None\<close> (\<^verbatim>\<open>AttributeError\<close>).
\<close>

definition update_coords :: "sdk \<Rightarrow> robot \<Rightarrow> world_obj option \<Rightarrow> sdk_obj \<Rightarrow> error + world_obj" where
  "update_coords s rob world_obj sdk_o =
     (case pose sdk_o of
        None \<Rightarrow> Inl TypeError
      | Some p \<Rightarrow>
          (case x_y_z (pose_sub s p (robot_pose rob)) of (dx, dy, _) \<Rightarrow>
          (case particle_pose rob of (rob_x, rob_y, rob_theta) \<Rightarrow>
             let orient_diff = wrap_angle (rob_theta - angle_z (robot_pose rob));
                 osin = sin orient_diff;
                 ocos = cos orient_diff;
                 wx = dx * ocos + dy * osin;
                 wy = dx * - osin + dy * ocos
             in (case world_obj of
                   None \<Rightarrow> Inl AttributeError
                 | Some w \<Rightarrow>
                     Inr (w\<lparr>obj_x := rob_x + wx,
                            obj_y := rob_y + wy,
                            obj_z := position_z p + vision_z_fudge,
                            theta := wrap_angle (angle_z p + orient_diff),
                            obj_is_visible := is_visible sdk_o\<rparr>)))))"

text \<open>
  The callers of \<^verbatim>\<open>update_coords\<close> pass the object that is stored under the key
  \<^verbatim>\<open>sdk_obj\<close>, so the assignments change the stored object. When \<^verbatim>\<open>update_coords\<close>
  raises, nothing has been assigned yet.
\<close>

definition update_stored :: "sdk \<Rightarrow> world_map \<Rightarrow> handle \<Rightarrow> world_obj option \<Rightarrow> error option \<times> world_map" where
  "update_stored s wm h world_obj =
     (case update_coords s (robot wm) world_obj (objs s h) of
        Inl e \<Rightarrow> (Some e, wm)
      | Inr w \<Rightarrow> (None, wm\<lparr>objects := (objects wm)(HandleKey h \<mapsto> Some w)\<rparr>))"

text \<open>
  The generator of \<^verbatim>\<open>update_cube\<close>:
  \<^verbatim>\<open>tuple(key for (key,value) in self.robot.world.light_cubes.items() if value == cube)\<close>.
\<close>

definition cube_keys :: "(int \<times> handle) list \<Rightarrow> handle \<Rightarrow> int list" where
  "cube_keys cubes cube = [k. (k, v) \<leftarrow> cubes, v = cube]"

text \<open>
  \<^verbatim>\<open>update_cube(cube)\<close>. The identifier of a new cube is the first key of
  \<^verbatim>\<open>light_cubes\<close> whose value is the cube; indexing the empty tuple raises
  \<^verbatim>\<open>IndexError\<close>.
\<close>

definition update_cube :: "sdk \<Rightarrow> world_map \<Rightarrow> handle \<Rightarrow> error option \<times> world_map" where
  "update_cube s wm cube =
     (case pose (objs s cube) of
        None \<Rightarrow> (None, wm)
      | Some p \<Rightarrow>
          if \<not> is_comparable s p (robot_pose (robot wm)) then (None, wm)
          else
            (case objects wm (HandleKey cube) of
               Some world_obj \<Rightarrow> update_stored s wm cube world_obj
             | None \<Rightarrow>
                 (case cube_keys (light_cubes (robot wm)) cube of
                    [] \<Rightarrow> (Some IndexError, wm)
                  | i # _ \<Rightarrow>
                      let world_obj = LightCubeObj s cube (IntId i) 0 0 0 0
                      in update_stored s
                           (wm\<lparr>objects := (objects wm)(HandleKey cube \<mapsto> Some world_obj)\<rparr>)
                           cube (Some world_obj))))"

text \<open>
  \<^verbatim>\<open>update_custom_object(sdk_obj)\<close> calls \<^verbatim>\<open>sdk_obj.pose.is_comparable\<close> without
  testing the pose: on an absent pose the attribute access raises \<^verbatim>\<open>AttributeError\<close>.
\<close>

definition update_custom_object :: "sdk \<Rightarrow> world_map \<Rightarrow> handle \<Rightarrow> error option \<times> world_map" where
  "update_custom_object s wm sdk_o =
     (case pose (objs s sdk_o) of
        None \<Rightarrow> (Some AttributeError, wm)
      | Some p \<Rightarrow>
          if \<not> is_comparable s p (robot_pose (robot wm)) then (None, wm)
          else
            (case objects wm (HandleKey sdk_o) of
               Some world_obj \<Rightarrow> update_stored s wm sdk_o world_obj
             | None \<Rightarrow>
                 let i = object_type (objs s sdk_o);
                     world_obj = CustomCubeObj s sdk_o i 0 0 0 0 None
                 in update_stored s
                      (wm\<lparr>objects := (objects wm)(HandleKey sdk_o \<mapsto> Some world_obj)\<rparr>)
                      sdk_o (Some world_obj)))"

text \<open>\<^verbatim>\<open>handle_object_observed(evt)\<close> dispatches on the class of \<^verbatim>\<open>evt.obj\<close>.\<close>

record event =
  obj :: handle

definition handle_object_observed :: "sdk \<Rightarrow> world_map \<Rightarrow> event \<Rightarrow> error option \<times> world_map" where
  "handle_object_observed s wm evt =
     (case cls (objs s (obj evt)) of
        LightCube \<Rightarrow> update_cube s wm (obj evt)
      | CustomObject \<Rightarrow> update_custom_object s wm (obj evt)
      | OtherClass \<Rightarrow> (None, wm))"

subsection \<open>Wall specifications and the catalog\<close>

text \<open>
  \<^verbatim>\<open>WallSpec.markers\<close> is a dictionary from marker ids to tuples; of the tuple of a
  marker \<^verbatim>\<open>infer_wall\<close> reads \<^verbatim>\<open>[1][0]\<close>, the first coordinate of its second
  component. A dictionary is the list of its items (distinct keys, in its order), looked up
  with \<open>map_of\<close>.
\<close>

type_synonym marker_entry = "int \<times> real list"

record wall_spec =
  ws_length :: real
  ws_height :: real
  ws_door_width :: real
  ws_door_height :: real
  ws_markers :: "(int \<times> marker_entry) list"
  ws_doorways :: "(real \<times> real) list"
  ws_id :: int

text \<open>The global \<^verbatim>\<open>wall_marker_dict\<close>; it is never iterated.\<close>

type_synonym catalog = "int \<rightharpoonup> wall_spec"

text \<open>\<^verbatim>\<open>min(ids)\<close> raises \<^verbatim>\<open>ValueError\<close> on an empty list.\<close>

fun py_min :: "int list \<Rightarrow> error + int" where
  "py_min [] = Inl ValueError"
| "py_min (i # ids) = Inr (fold min ids i)"

text \<open>
  \<^verbatim>\<open>WallSpec.__init__\<close> sets the attributes, then the identifier, then registers the new
  object under each of its marker ids. It returns the new object or the exception, and the
  catalog.
\<close>

definition WallSpec ::
  "catalog \<Rightarrow> real \<Rightarrow> real \<Rightarrow> real \<Rightarrow> real \<Rightarrow> (int \<times> marker_entry) list \<Rightarrow> (real \<times> real) list
     \<Rightarrow> (error + wall_spec) \<times> catalog" where
  "WallSpec wall_marker_dict len height door_width door_height markers doorways =
     (let ids = map fst markers in
      case py_min ids of
        Inl e \<Rightarrow> (Inl e, wall_marker_dict)
      | Inr i \<Rightarrow>
          let self = \<lparr>ws_length = len, ws_height = height, ws_door_width = door_width,
                      ws_door_height = door_height, ws_markers = markers,
                      ws_doorways = doorways, ws_id = i\<rparr>
          in (Inr self, fold (\<lambda>m d. d(m \<mapsto> self)) ids wall_marker_dict))"

subsection \<open>Walls from markers\<close>

text \<open>
  \<^verbatim>\<open>infer_wall(id, markers)\<close>: the loop returns at the first marker that the catalog
  knows; when it finds none the method returns \<^verbatim>\<open>None\<close>. The parameter \<^verbatim>\<open>id\<close> is not
  used. \<^verbatim>\<open>WallObj\<close> is called without \<^verbatim>\<open>door_width\<close>.
\<close>

fun infer_wall :: "catalog \<Rightarrow> int \<Rightarrow> (int \<times> landmark) list \<Rightarrow> error + world_obj option" where
  "infer_wall wall_marker_dict wall_id [] = Inr None"
| "infer_wall wall_marker_dict wall_id ((m_id, m_spec) # markers) =
     (case wall_marker_dict m_id of
        None \<Rightarrow> infer_wall wall_marker_dict wall_id markers
      | Some wall_spec \<Rightarrow>
          (case m_spec of ((m_x, m_y), m_orient, m_sigma) \<Rightarrow>
             (case map_of (ws_markers wall_spec) m_id of
                None \<Rightarrow> Inl KeyError
              | Some (_, coords) \<Rightarrow>
                  (case coords of
                     [] \<Rightarrow> Inl IndexError
                   | c # _ \<Rightarrow>
                       let dist = ws_length wall_spec / 2 - c;
                           wall_orient = m_orient;
                           wall_x = m_x + dist * cos (wall_orient - pi / 2);
                           wall_y = m_y + dist * sin (wall_orient - pi / 2)
                       in Inr (Some (WallObj (IntId (ws_id wall_spec)) wall_x wall_y wall_orient
                                      (ws_length wall_spec) (ws_height wall_spec)
                                      WallObj_default_door_width
                                      (ws_door_height wall_spec)))))))"

text \<open>
  The first loop of \<^verbatim>\<open>generate_walls_from_markers\<close>: the markers the catalog knows are
  appended to the list of their wall in the dictionary \<^verbatim>\<open>seen_markers\<close>.
\<close>

fun distribute_markers ::
  "catalog \<Rightarrow> (int \<times> landmark) list \<Rightarrow> (int \<times> (int \<times> landmark) list) list
     \<Rightarrow> (int \<times> (int \<times> landmark) list) list" where
  "distribute_markers wall_marker_dict [] seen_markers = seen_markers"
| "distribute_markers wall_marker_dict ((m_id, spec) # rest) seen_markers =
     (case wall_marker_dict m_id of
        None \<Rightarrow> distribute_markers wall_marker_dict rest seen_markers
      | Some wall_spec \<Rightarrow>
          let wall_id = ws_id wall_spec;
              markers = (case map_of seen_markers wall_id of None \<Rightarrow> [] | Some ms \<Rightarrow> ms)
          in distribute_markers wall_marker_dict rest
               (AList.update wall_id (markers @ [(m_id, spec)]) seen_markers))"

text \<open>The second loop: each group is given to \<^verbatim>\<open>infer_wall\<close> and the result stored.\<close>

fun infer_walls ::
  "catalog \<Rightarrow> (int \<times> (int \<times> landmark) list) list \<Rightarrow> world_map \<Rightarrow> error option \<times> world_map" where
  "infer_walls wall_marker_dict [] wm = (None, wm)"
| "infer_walls wall_marker_dict ((wall_id, markers) # rest) wm =
     (case infer_wall wall_marker_dict wall_id markers of
        Inl e \<Rightarrow> (Some e, wm)
      | Inr w \<Rightarrow>
          infer_walls wall_marker_dict rest (wm\<lparr>objects := (objects wm)(IntKey wall_id \<mapsto> w)\<rparr>))"

definition generate_walls_from_markers :: "catalog \<Rightarrow> world_map \<Rightarrow> error option \<times> world_map" where
  "generate_walls_from_markers wall_marker_dict wm =
     infer_walls wall_marker_dict
       (distribute_markers wall_marker_dict (landmarks (robot wm)) []) wm"

text \<open>\<^verbatim>\<open>update_map\<close>: the walls, then every cube of \<^verbatim>\<open>light_cubes\<close>.\<close>

fun update_cubes :: "sdk \<Rightarrow> (int \<times> handle) list \<Rightarrow> world_map \<Rightarrow> error option \<times> world_map" where
  "update_cubes s [] wm = (None, wm)"
| "update_cubes s ((i, cube) # rest) wm =
     (case update_cube s wm cube of
        (Some e, wm') \<Rightarrow> (Some e, wm')
      | (None, wm') \<Rightarrow> update_cubes s rest wm')"

definition update_map :: "catalog \<Rightarrow> sdk \<Rightarrow> world_map \<Rightarrow> error option \<times> world_map" where
  "update_map wall_marker_dict s wm =
     (case generate_walls_from_markers wall_marker_dict wm of
        (Some e, wm') \<Rightarrow> (Some e, wm')
      | (None, wm') \<Rightarrow> update_cubes s (light_cubes (robot wm')) wm')"

text \<open>\<^verbatim>\<open>WorldMap.__init__(robot)\<close>: no objects yet.\<close>

definition WorldMap :: "robot \<Rightarrow> world_map" where
  "WorldMap r = \<lparr>robot = r, objects = Map.empty\<rparr>"

subsection \<open>Scenes used to instantiate the theorems\<close>

text \<open>
  A pose difference that subtracts positions and angles componentwise, for the scenes below.
  The theorems hold for every \<open>pose_sub\<close>.
\<close>

definition plain_pose_sub :: "pose \<Rightarrow> pose \<Rightarrow> pose" where
  "plain_pose_sub p q =
     (case (x_y_z p, x_y_z q) of
        ((px, py, pz), (qx, qy, qz)) \<Rightarrow>
          \<lparr>x_y_z = (px - qx, py - qy, pz - qz), angle_z = angle_z p - angle_z q\<rparr>)"

text \<open>
  The cube scene: the robot's own pose is the origin with heading 0, the particle filter
  places it at (100, 50) with heading 0; cube 1 (handle 0) is seen at (30, 0, 0) with
  heading \<open>\<pi>/2\<close>. Handle 5 is a cube with a pose that \<^verbatim>\<open>light_cubes\<close> does not hold.
  Handle 9 is a custom object that has no pose yet.
\<close>

definition scene_sdk :: sdk where
  "scene_sdk =
     \<lparr>objs = (\<lambda>h. if h = 9
                     then \<lparr>cls = CustomObject, pose = None, is_visible = False,
                            object_type = TypeId 0\<rparr>
                     else \<lparr>cls = LightCube,
                            pose = Some \<lparr>x_y_z = (30, 0, 0), angle_z = pi / 2\<rparr>,
                            is_visible = True, object_type = NoneId\<rparr>),
      is_comparable = (\<lambda>p q. True),
      pose_sub = plain_pose_sub\<rparr>"

definition scene_robot :: robot where
  "scene_robot =
     \<lparr>robot_pose = \<lparr>x_y_z = (0, 0, 0), angle_z = 0\<rparr>,
      light_cubes = [(1, 0)],
      particle_pose = (100, 50, 0),
      landmarks = []\<rparr>"

text \<open>
  The wall scene: a wall of length 200 whose marker 7 lies at offset 20 and whose marker 8
  lies at offset 150. Marker 3 belongs to no wall.
\<close>

definition scene_catalog :: catalog where
  "scene_catalog = snd (WallSpec Map.empty 200 210 75 105 [(7, (1, [20, 0])), (8, (1, [150, 0]))] [])"

definition scene_markers :: "(int \<times> landmark) list" where
  "scene_markers = [(3, ((0, 0), 1, [])), (7, ((10, 0), 0, [])), (8, ((500, 500), 1, []))]"

text \<open>A wall specification whose door is 80 wide, registered under marker 7.\<close>

definition wide_door_catalog :: catalog where
  "wide_door_catalog = snd (WallSpec Map.empty 200 210 80 105 [(7, (1, [20, 0]))] [])"

subsection \<open>The heading invariant\<close>

text \<open>
  The heading of a world object is normalised when it lies in \<open>(-\<pi>, \<pi>]\<close>; a map
  satisfies the invariant when every object it stores does. For the landmarks of the
  particle filter the same interval is stated of the orientations.
\<close>

definition heading_normalized :: "world_obj \<Rightarrow> bool" where
  "heading_normalized w \<longleftrightarrow> - pi < theta w \<and> theta w \<le> pi"

definition headings_normalized :: "world_map \<Rightarrow> bool" where
  "headings_normalized wm \<longleftrightarrow> (\<forall>k w. objects wm k = Some (Some w) \<longrightarrow> heading_normalized w)"

definition orientations_normalized :: "(int \<times> landmark) list \<Rightarrow> bool" where
  "orientations_normalized ms \<longleftrightarrow>
     (\<forall>(m, (mu, orient, sigma)) \<in> set ms. - pi < orient \<and> orient \<le> pi)"

text \<open>The groups of \<^verbatim>\<open>seen_markers\<close>, with normalised orientations throughout.\<close>

definition groups_normalized :: "(int \<times> (int \<times> landmark) list) list \<Rightarrow> bool" where
  "groups_normalized seen \<longleftrightarrow> (\<forall>(wall_id, ms) \<in> set seen. orientations_normalized ms)"

text \<open>
  The cube scene with the markers of the wall scene as landmarks, and the cube scene with
  marker 7 as its only landmark, seen at (10, 0) with orientation 4.
\<close>

definition walls_robot :: robot where
  "walls_robot = scene_robot\<lparr>landmarks := scene_markers\<rparr>"

definition turned_robot :: robot where
  "turned_robot = scene_robot\<lparr>landmarks := [(7, ((10, 0), 4, []))]\<rparr>"

section \<open>Properties\<close>

subsection \<open>Auxiliary facts\<close>

lemma wrap_angle_id:
  assumes "- pi < a" and "a \<le> pi"
  shows "wrap_angle a = a"
proof -
  have "\<lceil>(a - pi) / (2 * pi)\<rceil> = 0"
  proof (rule ceiling_unique)
    show "of_int 0 - 1 < (a - pi) / (2 * pi)"
      using assms(1) pi_gt_zero by (simp add: field_simps)
    show "(a - pi) / (2 * pi) \<le> of_int 0"
      using assms(2) pi_gt_zero by (simp add: field_simps)
  qed
  then show ?thesis by (simp add: wrap_angle_def)
qed

lemma wrap_angle_range: "- pi < wrap_angle a \<and> wrap_angle a \<le> pi"
proof -
  define k where "k = \<lceil>(a - pi) / (2 * pi)\<rceil>"
  have up: "(a - pi) / (2 * pi) \<le> of_int k"
    unfolding k_def by (rule le_of_int_ceiling)
  have lo: "of_int k - 1 < (a - pi) / (2 * pi)"
    unfolding k_def by linarith
  have pos: "0 < 2 * pi" using pi_gt_zero by simp
  from up pos have "a - pi \<le> of_int k * (2 * pi)"
    by (simp add: pos_divide_le_eq)
  moreover from lo pos have "(of_int k - 1) * (2 * pi) < a - pi"
    by (simp add: pos_less_divide_eq)
  ultimately show ?thesis
    unfolding wrap_angle_def k_def [symmetric] by (simp add: algebra_simps)
qed

lemma wrap_angle_zero: "wrap_angle 0 = 0"
  using wrap_angle_id [of 0] pi_gt_zero by simp

lemma infer_wall_skip:
  "\<forall>(m, sp) \<in> set pre. wall_marker_dict m = None \<Longrightarrow>
   infer_wall wall_marker_dict wall_id (pre @ rest) = infer_wall wall_marker_dict wall_id rest"
  by (induction pre) auto

lemma fold_register:
  "fold (\<lambda>m d. d(m \<mapsto> self)) ids d0 = (\<lambda>m. if m \<in> set ids then Some self else d0 m)"
  by (induction ids arbitrary: d0) (auto simp: fun_eq_iff)

lemma py_min_nonempty:
  assumes "ids \<noteq> []"
  shows "py_min ids = Inr (Min (set ids))"
proof (cases ids)
  case Nil
  with assms show ?thesis by simp
next
  case (Cons i rest)
  then show ?thesis using Min.set_eq_fold [of i rest] by simp
qed

lemma cube_keys_unregistered:
  "cube \<notin> snd ` set cubes \<Longrightarrow> cube_keys cubes cube = []"
  unfolding cube_keys_def by (induction cubes) auto

lemma scene_catalog_eq:
  "scene_catalog =
     (\<lambda>m. if m = 7 \<or> m = 8
          then Some \<lparr>ws_length = 200, ws_height = 210, ws_door_width = 75,
                     ws_door_height = 105,
                     ws_markers = [(7, (1, [20, 0])), (8, (1, [150, 0]))],
                     ws_doorways = [], ws_id = 7\<rparr>
          else None)"
  by (auto simp: scene_catalog_def WallSpec_def Let_def fun_eq_iff)

lemma wide_door_catalog_eq:
  "wide_door_catalog =
     (\<lambda>m. if m = 7
          then Some \<lparr>ws_length = 200, ws_height = 210, ws_door_width = 80,
                     ws_door_height = 105, ws_markers = [(7, (1, [20, 0]))],
                     ws_doorways = [], ws_id = 7\<rparr>
          else None)"
  by (auto simp: wide_door_catalog_def WallSpec_def Let_def fun_eq_iff)

subsection \<open>Coordinate fusion\<close>

text \<open>
  Claim C1. When the heading discrepancy \<^verbatim>\<open>orient_diff\<close> is 0, \<^verbatim>\<open>update_coords\<close> sets the
  object's \<open>(x, y)\<close> to the particle filter's position of the robot plus the displacement
  \<open>(dx, dy)\<close> of the pose difference, unchanged. Its heading becomes the normalised heading
  of the detection's pose, which is that heading itself when it lies in \<open>(-\<pi>, \<pi>]\<close>, the
  range the specification's data model gives every pose.
\<close>

theorem update_coords_orient_diff_zero:
  assumes "pose sdk_o = Some p"
    and "x_y_z (pose_sub s p (robot_pose rob)) = (dx, dy, dz)"
    and "particle_pose rob = (rob_x, rob_y, rob_theta)"
    and "wrap_angle (rob_theta - angle_z (robot_pose rob)) = 0"
  shows "\<exists>w'. update_coords s rob (Some w) sdk_o = Inr w'
           \<and> obj_x w' = rob_x + dx \<and> obj_y w' = rob_y + dy
           \<and> theta w' = wrap_angle (angle_z p)
           \<and> (- pi < angle_z p \<and> angle_z p \<le> pi \<longrightarrow> theta w' = angle_z p)"
  using assms by (simp add: update_coords_def wrap_angle_id)

text \<open>
  The scene of the specification: robot at (100, 50) with heading 0 and raw heading 0, cube at
  relative (30, 0) with heading \<open>\<pi>/2\<close>. The fused object is at (130, 50) with heading
  \<open>\<pi>/2\<close>.
\<close>

theorem update_coords_orient_diff_zero_witness:
  "\<exists>w'. update_coords scene_sdk scene_robot
           (Some (LightCubeObj scene_sdk 0 (IntId 1) 0 0 0 0)) (objs scene_sdk 0) = Inr w'
        \<and> obj_x w' = 130 \<and> obj_y w' = 50 \<and> theta w' = pi / 2"
proof -
  have p: "pose (objs scene_sdk 0) = Some \<lparr>x_y_z = (30, 0, 0), angle_z = pi / 2\<rparr>"
    by (simp add: scene_sdk_def)
  have d: "x_y_z (pose_sub scene_sdk \<lparr>x_y_z = (30, 0, 0), angle_z = pi / 2\<rparr>
             (robot_pose scene_robot)) = (30, 0, 0)"
    by (simp add: scene_sdk_def scene_robot_def plain_pose_sub_def)
  have r: "particle_pose scene_robot = (100, 50, 0)"
    by (simp add: scene_robot_def)
  have z: "wrap_angle (0 - angle_z (robot_pose scene_robot)) = 0"
    by (simp add: scene_robot_def wrap_angle_zero)
  have h: "- pi < angle_z \<lparr>x_y_z = (30, 0, 0), angle_z = pi / 2\<rparr>
         \<and> angle_z \<lparr>x_y_z = (30, 0, 0), angle_z = pi / 2\<rparr> \<le> pi"
    using pi_gt_zero by simp
  show ?thesis
    using update_coords_orient_diff_zero [OF p d r z,
        of "LightCubeObj scene_sdk 0 (IntId 1) 0 0 0 0"] h
    by auto
qed

text \<open>
  Claim C3. The \<open>z\<close> that \<^verbatim>\<open>update_coords\<close> stores is the \<open>z\<close> of the detection's pose
  (\<^verbatim>\<open>sdk_obj.pose.position.z\<close>) plus \<^verbatim>\<open>vision_z_fudge\<close>, which is 10, for every robot
  pose, particle filter pose and pose difference.
\<close>

theorem update_coords_z:
  assumes "pose sdk_o = Some p"
  shows "\<exists>w'. update_coords s rob (Some w) sdk_o = Inr w'
           \<and> obj_z w' = position_z p + vision_z_fudge \<and> vision_z_fudge = 10"
  using assms
  by (simp add: update_coords_def vision_z_fudge_def Let_def split: prod.splits)

text \<open>In the cube scene the detection's \<open>z\<close> is 0 and the object's \<open>z\<close> becomes 10.\<close>

theorem update_coords_z_witness:
  "\<exists>w'. update_coords scene_sdk scene_robot
           (Some (LightCubeObj scene_sdk 0 (IntId 1) 0 0 0 0)) (objs scene_sdk 0) = Inr w'
        \<and> obj_z w' = 10"
proof -
  have p: "pose (objs scene_sdk 0) = Some \<lparr>x_y_z = (30, 0, 0), angle_z = pi / 2\<rparr>"
    by (simp add: scene_sdk_def)
  show ?thesis
    using update_coords_z [OF p, of scene_sdk scene_robot
        "LightCubeObj scene_sdk 0 (IntId 1) 0 0 0 0"]
    by (auto simp: position_z_def)
qed

subsection \<open>Wall inference\<close>

text \<open>
  Claim C2. \<^verbatim>\<open>infer_wall\<close> builds the wall from the first marker of the group that the
  catalog knows: with \<open>offset = length/2 - offset_along_wall\<close> the wall lies at
  \<open>(m_x + offset * cos (orient - \<pi>/2), m_y + offset * sin (orient - \<pi>/2))\<close> with the
  marker's orientation as its heading. The markers before it, which the catalog does not
  know, and the markers after it do not matter: the marker alone gives the same wall.
\<close>

theorem infer_wall_first_usable:
  assumes "\<forall>(m, sp) \<in> set pre. wall_marker_dict m = None"
    and "wall_marker_dict m_id = Some wall_spec"
    and "map_of (ws_markers wall_spec) m_id = Some (e, off # others)"
  shows "\<exists>w. infer_wall wall_marker_dict wall_id
               (pre @ (m_id, ((m_x, m_y), m_orient, m_sigma)) # post) = Inr (Some w)
           \<and> infer_wall wall_marker_dict wall_id' [(m_id, ((m_x, m_y), m_orient, m_sigma))]
               = Inr (Some w)
           \<and> obj_x w = m_x + (ws_length wall_spec / 2 - off) * cos (m_orient - pi / 2)
           \<and> obj_y w = m_y + (ws_length wall_spec / 2 - off) * sin (m_orient - pi / 2)
           \<and> theta w = m_orient"
  using assms by (simp add: infer_wall_skip WallObj_def WorldObject_def Let_def)

text \<open>
  The scene of the specification, between a marker of no wall and a second marker of the same
  wall: marker 7 at (10, 0) with orientation 0 gives the wall at (10, -80) with heading 0.
\<close>

theorem infer_wall_first_usable_witness:
  "\<exists>w. infer_wall scene_catalog 7 scene_markers = Inr (Some w)
       \<and> obj_x w = 10 \<and> obj_y w = - 80 \<and> theta w = 0"
proof -
  let ?spec = "\<lparr>ws_length = 200, ws_height = 210, ws_door_width = 75, ws_door_height = 105,
                 ws_markers = [(7, (1, [20, 0])), (8, (1, [150, 0]))],
                 ws_doorways = [], ws_id = 7\<rparr>"
  have a: "\<forall>(m, sp) \<in> set [(3::int, ((0::real, 0::real), 1::real, [] :: real list list))].
             scene_catalog m = None"
    by (simp add: scene_catalog_eq)
  have b: "scene_catalog 7 = Some ?spec"
    by (simp add: scene_catalog_eq)
  have c: "map_of (ws_markers ?spec) 7 = Some (1, 20 # [0])"
    by simp
  show ?thesis
    using infer_wall_first_usable [OF a b c, of 7 10 0 0 "[]" "[(8, ((500, 500), 1, []))]" 7]
    by (auto simp: scene_markers_def)
qed

subsection \<open>Wall specifications\<close>

text \<open>
  Claim C7. Constructing a \<^verbatim>\<open>WallSpec\<close> with at least one marker succeeds; its identifier
  is the least of its marker ids; after it the catalog maps each of its marker ids to the new
  specification, whatever the catalog held for that id before, and is unchanged elsewhere.
\<close>

theorem WallSpec_registers:
  assumes "markers \<noteq> []"
  shows "\<exists>self. WallSpec wall_marker_dict len height door_width door_height markers doorways
                 = (Inr self,
                    (\<lambda>m. if m \<in> fst ` set markers then Some self else wall_marker_dict m))
           \<and> ws_id self = Min (fst ` set markers)
           \<and> ws_markers self = markers"
  using assms by (simp add: WallSpec_def Let_def fold_register py_min_nonempty)

text \<open>
  Markers 5, 2 and 9 give the identifier 2. Marker 7 was registered for the wall of the wall
  scene before and now belongs to the new wall; marker 8 still belongs to the old one.
\<close>

theorem WallSpec_registers_witness:
  "\<exists>self d. WallSpec scene_catalog 100 210 75 105
               [(5, (1, [10])), (2, (1, [30])), (9, (1, [50])), (7, (1, [70]))] []
             = (Inr self, d)
        \<and> ws_id self = 2
        \<and> d 5 = Some self \<and> d 2 = Some self \<and> d 9 = Some self \<and> d 7 = Some self
        \<and> scene_catalog 7 \<noteq> Some self \<and> d 8 = scene_catalog 8 \<and> d 3 = None"
proof -
  have ne: "[(5::int, (1::int, [10::real])), (2, (1, [30])), (9, (1, [50])), (7, (1, [70]))] \<noteq> []"
    by simp
  show ?thesis
    using WallSpec_registers [OF ne, of scene_catalog 100 210 75 105 "[]"]
    by (auto simp: scene_catalog_eq)
qed

text \<open>
  Claim C8. Constructing a \<^verbatim>\<open>WallSpec\<close> without markers raises \<^verbatim>\<open>ValueError\<close> (from
  \<^verbatim>\<open>min\<close> of an empty list) and leaves the catalog as it was.
\<close>

theorem WallSpec_empty:
  "WallSpec wall_marker_dict len height door_width door_height [] doorways
     = (Inl ValueError, wall_marker_dict)"
  by (simp add: WallSpec_def)

subsection \<open>The geometry of an inferred wall\<close>

text \<open>
  The geometry of an inferred wall: length, height and door height are those of the
  specification; \<^verbatim>\<open>door_width\<close> is not passed to \<^verbatim>\<open>WallObj\<close>, so the wall's door
  width is the default 75.
\<close>

lemma infer_wall_geometry:
  assumes "wall_marker_dict m_id = Some wall_spec"
    and "infer_wall wall_marker_dict wall_id ((m_id, m_spec) # post) = Inr (Some w)"
  shows "own_fields w = WallFields (ws_length wall_spec) (ws_height wall_spec) 75
                          (ws_door_height wall_spec)"
  using assms
  by (auto simp: WallObj_def WorldObject_def WallObj_default_door_width_def Let_def
      split: prod.splits option.splits list.splits)

text \<open>
  Claim C6. The wall that \<^verbatim>\<open>infer_wall\<close> returns takes its length, height and door
  height from the specification, but its door width is the default 75 whatever the
  specification says: here for a specification whose door is 80 wide.
\<close>

theorem infer_wall_door_width_default:
  "\<exists>spec w. wide_door_catalog 7 = Some spec \<and> ws_door_width spec = 80
       \<and> infer_wall wide_door_catalog 7 [(7, ((10, 0), 0, []))] = Inr (Some w)
       \<and> wall_door_width (own_fields w) = 75
       \<and> wall_length (own_fields w) = ws_length spec
       \<and> wall_height (own_fields w) = ws_height spec
       \<and> wall_door_height (own_fields w) = ws_door_height spec"
  by (simp add: wide_door_catalog_eq WallObj_def WorldObject_def
      WallObj_default_door_width_def Let_def)

subsection \<open>Skipped updates\<close>

text \<open>
  \<^verbatim>\<open>update_cube\<close> returns without a change when the cube's pose is absent or not
  comparable to the robot's, and \<^verbatim>\<open>update_custom_object\<close> does so when the pose is not
  comparable. \<^verbatim>\<open>update_custom_object\<close> does not test for an absent pose as
  \<^verbatim>\<open>update_cube\<close> does: it raises \<^verbatim>\<open>AttributeError\<close>.
\<close>

lemma update_cube_skips:
  assumes "pose (objs s cube) = None
             \<or> (\<exists>p. pose (objs s cube) = Some p \<and> \<not> is_comparable s p (robot_pose (robot wm)))"
  shows "update_cube s wm cube = (None, wm)"
  using assms by (auto simp: update_cube_def)

lemma update_custom_object_skips_incomparable:
  assumes "pose (objs s sdk_o) = Some p"
    and "\<not> is_comparable s p (robot_pose (robot wm))"
  shows "update_custom_object s wm sdk_o = (None, wm)"
  using assms by (simp add: update_custom_object_def)

lemma update_custom_object_absent_pose:
  assumes "pose (objs s sdk_o) = None"
  shows "update_custom_object s wm sdk_o = (Some AttributeError, wm)"
  using assms by (simp add: update_custom_object_def)

text \<open>
  Claim C4. On a detection whose pose is absent \<^verbatim>\<open>update_cube\<close> is a silent no-op, but
  \<^verbatim>\<open>update_custom_object\<close> raises \<^verbatim>\<open>AttributeError\<close>, and so does
  \<^verbatim>\<open>handle_object_observed\<close> for an event of that custom object: here for the custom
  object of the cube scene that has no pose.
\<close>

theorem update_custom_object_absent_pose_raises:
  "pose (objs scene_sdk 9) = None
     \<and> update_cube scene_sdk (WorldMap scene_robot) 9 = (None, WorldMap scene_robot)
     \<and> update_custom_object scene_sdk (WorldMap scene_robot) 9
         = (Some AttributeError, WorldMap scene_robot)
     \<and> handle_object_observed scene_sdk (WorldMap scene_robot) \<lparr>obj = 9\<rparr>
         = (Some AttributeError, WorldMap scene_robot)"
  by (simp add: scene_sdk_def update_cube_def update_custom_object_def
      handle_object_observed_def)

subsection \<open>Cubes that the tracking collection does not hold\<close>

text \<open>
  Claim C10. For a cube with a comparable pose that is not yet a key of the map,
  \<^verbatim>\<open>update_cube\<close> looks the cube up among the values of \<^verbatim>\<open>light_cubes\<close>. When it is
  not there, \<^verbatim>\<open>update_cube\<close> raises \<^verbatim>\<open>IndexError\<close> and so does
  \<^verbatim>\<open>handle_object_observed\<close> for an event of this cube; the map is unchanged. When it is
  there, the object is created with the first key of the cube as its identifier.
\<close>

theorem update_cube_unregistered:
  assumes "pose (objs s cube) = Some p"
    and "is_comparable s p (robot_pose (robot wm))"
    and "objects wm (HandleKey cube) = None"
  shows "(cube \<notin> snd ` set (light_cubes (robot wm)) \<longrightarrow>
            update_cube s wm cube = (Some IndexError, wm)
          \<and> (cls (objs s cube) = LightCube \<longrightarrow>
               handle_object_observed s wm \<lparr>obj = cube\<rparr> = (Some IndexError, wm)))
       \<and> (\<forall>i ids. cube_keys (light_cubes (robot wm)) cube = i # ids \<longrightarrow>
            (\<exists>w wm'. update_cube s wm cube = (None, wm')
               \<and> objects wm' (HandleKey cube) = Some (Some w) \<and> obj_id w = IntId i))"
proof (intro conjI impI allI)
  assume "cube \<notin> snd ` set (light_cubes (robot wm))"
  then have nil: "cube_keys (light_cubes (robot wm)) cube = []"
    by (rule cube_keys_unregistered)
  show "update_cube s wm cube = (Some IndexError, wm)"
    using assms by (simp add: update_cube_def nil)
  then show "handle_object_observed s wm \<lparr>obj = cube\<rparr> = (Some IndexError, wm)"
    if "cls (objs s cube) = LightCube"
    using that by (simp add: handle_object_observed_def)
next
  fix i ids
  assume "cube_keys (light_cubes (robot wm)) cube = i # ids"
  then show "\<exists>w wm'. update_cube s wm cube = (None, wm')
               \<and> objects wm' (HandleKey cube) = Some (Some w) \<and> obj_id w = IntId i"
    using assms
    by (simp add: update_cube_def update_stored_def update_coords_def LightCubeObj_def
        WorldObject_def Let_def split: prod.splits)
qed

text \<open>
  In the cube scene handle 5 has a pose but is no value of \<^verbatim>\<open>light_cubes\<close>: both entry
  points raise. Handle 0 is the value of key 1: its object is created with identifier 1.
\<close>

theorem update_cube_unregistered_witness:
  "update_cube scene_sdk (WorldMap scene_robot) 5 = (Some IndexError, WorldMap scene_robot)
     \<and> handle_object_observed scene_sdk (WorldMap scene_robot) \<lparr>obj = 5\<rparr>
         = (Some IndexError, WorldMap scene_robot)
     \<and> (\<exists>w wm'. update_cube scene_sdk (WorldMap scene_robot) 0 = (None, wm')
           \<and> objects wm' (HandleKey 0) = Some (Some w) \<and> obj_id w = IntId 1)"
proof -
  let ?p = "\<lparr>x_y_z = (30, 0, 0), angle_z = pi / 2\<rparr>"
  have p: "pose (objs scene_sdk h) = Some ?p" if "h \<noteq> 9" for h
    using that by (simp add: scene_sdk_def)
  have c: "is_comparable scene_sdk ?p (robot_pose (robot (WorldMap scene_robot)))"
    by (simp add: scene_sdk_def)
  have n: "objects (WorldMap scene_robot) (HandleKey h) = None" for h
    by (simp add: WorldMap_def)
  have five: "5 \<notin> snd ` set (light_cubes (robot (WorldMap scene_robot)))"
    and cube: "cls (objs scene_sdk 5) = LightCube"
    and zero: "cube_keys (light_cubes (robot (WorldMap scene_robot))) 0 = 1 # []"
    by (simp_all add: WorldMap_def scene_robot_def scene_sdk_def cube_keys_def)
  show ?thesis
    using update_cube_unregistered [OF p c n, of 5] update_cube_unregistered [OF p c n, of 0]
      five cube zero
    by simp
qed

subsection \<open>Normalised headings\<close>

text \<open>
  \<^verbatim>\<open>update_coords\<close> stores a heading that \<^verbatim>\<open>wrap_angle\<close> returned, and a new cube or
  custom object starts with heading 0, so the methods that fuse coordinates keep the
  invariant. \<^verbatim>\<open>infer_wall\<close> stores the orientation of the marker it uses.
\<close>

lemma update_coords_normalized:
  "update_coords s rob world_obj sdk_o = Inr w' \<Longrightarrow> heading_normalized w'"
  by (auto simp: update_coords_def heading_normalized_def wrap_angle_range Let_def
      split: option.splits prod.splits)

lemma headings_normalized_store:
  assumes "headings_normalized wm" and "\<forall>w. v = Some w \<longrightarrow> heading_normalized w"
  shows "headings_normalized (wm\<lparr>objects := (objects wm)(k \<mapsto> v)\<rparr>)"
  using assms by (auto simp: headings_normalized_def)

lemma headings_normalized_update_stored:
  assumes "headings_normalized wm"
  shows "headings_normalized (snd (update_stored s wm h world_obj))"
proof (cases "update_coords s (robot wm) world_obj (objs s h)")
  case (Inl e)
  then show ?thesis using assms by (simp add: update_stored_def)
next
  case (Inr w)
  then have "heading_normalized w" by (rule update_coords_normalized)
  then show ?thesis
    using Inr assms by (simp add: update_stored_def headings_normalized_store)
qed

lemma heading_normalized_new:
  "heading_normalized (LightCubeObj s h i px py pz 0)"
  "heading_normalized (CustomCubeObj s h i px py pz 0 sz)"
  using pi_gt_zero
  by (simp_all add: heading_normalized_def LightCubeObj_def CustomCubeObj_def WorldObject_def)

lemma headings_normalized_update_cube:
  assumes "headings_normalized wm"
  shows "headings_normalized (snd (update_cube s wm cube))"
  using assms
  by (auto simp: update_cube_def Let_def headings_normalized_update_stored
      headings_normalized_store heading_normalized_new split: option.splits list.splits)

lemma headings_normalized_update_custom_object:
  assumes "headings_normalized wm"
  shows "headings_normalized (snd (update_custom_object s wm sdk_o))"
  using assms
  by (auto simp: update_custom_object_def Let_def headings_normalized_update_stored
      headings_normalized_store heading_normalized_new split: option.splits)

lemma infer_wall_heading:
  "infer_wall wall_marker_dict wall_id ms = Inr (Some w) \<Longrightarrow>
   \<exists>m mu sigma. (m, (mu, theta w, sigma)) \<in> set ms"
proof (induction ms)
  case Nil
  then show ?case by simp
next
  case (Cons a ms)
  obtain m_id m_x m_y m_orient m_sigma where a: "a = (m_id, ((m_x, m_y), m_orient, m_sigma))"
    by (metis surj_pair)
  show ?case
  proof (cases "wall_marker_dict m_id")
    case None
    with Cons a show ?thesis by auto
  next
    case (Some wall_spec)
    with Cons.prems have "theta w = m_orient"
      by (auto simp: a WallObj_def WorldObject_def Let_def
          split: option.splits prod.splits list.splits)
    then have "(m_id, ((m_x, m_y), theta w, m_sigma)) \<in> set (a # ms)"
      by (simp add: a)
    then show ?thesis by blast
  qed
qed

lemma infer_wall_normalized:
  assumes "orientations_normalized ms"
    and "infer_wall wall_marker_dict wall_id ms = Inr (Some w)"
  shows "heading_normalized w"
proof -
  obtain m mu sigma where "(m, (mu, theta w, sigma)) \<in> set ms"
    using infer_wall_heading [OF assms(2)] by blast
  with assms(1) show ?thesis
    by (auto simp: orientations_normalized_def heading_normalized_def)
qed

lemma set_AList_update: "set (AList.update k v al) \<subseteq> insert (k, v) (set al)"
  by (induction al) auto

lemma groups_normalized_update:
  assumes "groups_normalized seen" and "orientations_normalized ms"
  shows "groups_normalized (AList.update k ms seen)"
  using assms set_AList_update [of k ms seen]
  by (auto simp: groups_normalized_def)

lemma groups_normalized_distribute:
  assumes "orientations_normalized ls" and "groups_normalized seen"
  shows "groups_normalized (distribute_markers wall_marker_dict ls seen)"
  using assms
proof (induction ls arbitrary: seen)
  case Nil
  then show ?case by simp
next
  case (Cons a ls)
  obtain m_id spec where a: "a = (m_id, spec)" by (cases a)
  from Cons.prems(1) have rest: "orientations_normalized ls"
    and one: "orientations_normalized [(m_id, spec)]"
    by (auto simp: orientations_normalized_def a)
  show ?case
  proof (cases "wall_marker_dict m_id")
    case None
    then show ?thesis using Cons.IH [OF rest Cons.prems(2)] by (simp add: a)
  next
    case (Some wall_spec)
    define old where "old = (case map_of seen (ws_id wall_spec) of None \<Rightarrow> [] | Some ms \<Rightarrow> ms)"
    have "orientations_normalized old"
    proof (cases "map_of seen (ws_id wall_spec)")
      case None
      then show ?thesis by (simp add: old_def orientations_normalized_def)
    next
      case (Some ms)
      then have "(ws_id wall_spec, ms) \<in> set seen" by (rule map_of_SomeD)
      with Cons.prems(2) have "orientations_normalized ms"
        by (auto simp: groups_normalized_def)
      with Some show ?thesis by (simp add: old_def)
    qed
    with one have "orientations_normalized (old @ [(m_id, spec)])"
      by (auto simp: orientations_normalized_def)
    then have "groups_normalized (AList.update (ws_id wall_spec) (old @ [(m_id, spec)]) seen)"
      using Cons.prems(2) by (simp add: groups_normalized_update)
    from Cons.IH [OF rest this] show ?thesis
      using Some by (simp add: a old_def Let_def)
  qed
qed

lemma headings_normalized_infer_walls:
  assumes "groups_normalized seen" and "headings_normalized wm"
  shows "headings_normalized (snd (infer_walls wall_marker_dict seen wm))"
  using assms
proof (induction seen arbitrary: wm)
  case Nil
  then show ?case by simp
next
  case (Cons g seen)
  obtain wall_id ms where g: "g = (wall_id, ms)" by (cases g)
  from Cons.prems(1) have ms: "orientations_normalized ms" and rest: "groups_normalized seen"
    by (auto simp: groups_normalized_def g)
  show ?case
  proof (cases "infer_wall wall_marker_dict wall_id ms")
    case (Inl e)
    then show ?thesis using Cons.prems(2) by (simp add: g)
  next
    case (Inr v)
    have "\<forall>w. v = Some w \<longrightarrow> heading_normalized w"
      using infer_wall_normalized [OF ms] Inr by auto
    then have "headings_normalized (wm\<lparr>objects := (objects wm)(IntKey wall_id \<mapsto> v)\<rparr>)"
      using Cons.prems(2) by (simp add: headings_normalized_store)
    from Cons.IH [OF rest this] show ?thesis
      using Inr by (simp add: g)
  qed
qed

lemma headings_normalized_generate_walls:
  assumes "orientations_normalized (landmarks (robot wm))" and "headings_normalized wm"
  shows "headings_normalized (snd (generate_walls_from_markers wall_marker_dict wm))"
  unfolding generate_walls_from_markers_def
  using assms
  by (intro headings_normalized_infer_walls groups_normalized_distribute)
    (simp_all add: groups_normalized_def)

lemma headings_normalized_update_cubes:
  assumes "headings_normalized wm"
  shows "headings_normalized (snd (update_cubes s cs wm))"
  using assms
proof (induction cs arbitrary: wm)
  case Nil
  then show ?case by simp
next
  case (Cons c cs)
  obtain i cube where c: "c = (i, cube)" by (cases c)
  obtain r wm' where u: "update_cube s wm cube = (r, wm')" by (cases "update_cube s wm cube")
  have "headings_normalized wm'"
    using headings_normalized_update_cube [OF Cons.prems, of s cube] u by simp
  then show ?case
    using Cons.IH [of wm'] u by (cases r) (simp_all add: c)
qed

lemma headings_normalized_update_map:
  assumes "orientations_normalized (landmarks (robot wm))" and "headings_normalized wm"
  shows "headings_normalized (snd (update_map wall_marker_dict s wm))"
proof -
  obtain r wm' where g: "generate_walls_from_markers wall_marker_dict wm = (r, wm')"
    by (cases "generate_walls_from_markers wall_marker_dict wm")
  have "headings_normalized wm'"
    using headings_normalized_generate_walls [OF assms, of wall_marker_dict] g by simp
  then show ?thesis
    using g by (cases r) (simp_all add: update_map_def headings_normalized_update_cubes)
qed

text \<open>
  Claim C5, as amended. The methods that fuse coordinates (\<^verbatim>\<open>update_cube\<close>,
  \<^verbatim>\<open>update_custom_object\<close>, \<^verbatim>\<open>handle_object_observed\<close>) keep the invariant that every
  stored object has a heading in \<open>(-\<pi>, \<pi>]\<close>, and every object \<^verbatim>\<open>update_coords\<close>
  returns has such a heading. The heading of a wall that \<^verbatim>\<open>infer_wall\<close> returns is the
  orientation of a marker of its group, unchanged; \<^verbatim>\<open>generate_walls_from_markers\<close> and
  \<^verbatim>\<open>update_map\<close> keep the invariant when the orientation of every landmark lies in
  \<open>(-\<pi>, \<pi>]\<close>.
\<close>

theorem headings_normalized_preserved:
  assumes "headings_normalized wm"
  shows "headings_normalized (snd (update_cube s wm h))
       \<and> headings_normalized (snd (update_custom_object s wm h))
       \<and> headings_normalized (snd (handle_object_observed s wm evt))
       \<and> (\<forall>w'. update_coords s rob world_obj sdk_o = Inr w' \<longrightarrow> heading_normalized w')
       \<and> (\<forall>w. infer_wall wall_marker_dict wall_id ms = Inr (Some w) \<longrightarrow>
             (\<exists>m mu sigma. (m, (mu, theta w, sigma)) \<in> set ms))
       \<and> (orientations_normalized (landmarks (robot wm)) \<longrightarrow>
             headings_normalized (snd (generate_walls_from_markers wall_marker_dict wm))
           \<and> headings_normalized (snd (update_map wall_marker_dict s wm)))"
proof (intro conjI allI impI)
  show "headings_normalized (snd (update_cube s wm h))"
    using assms by (rule headings_normalized_update_cube)
  show "headings_normalized (snd (update_custom_object s wm h))"
    using assms by (rule headings_normalized_update_custom_object)
  show "headings_normalized (snd (handle_object_observed s wm evt))"
    using assms
    by (simp add: handle_object_observed_def headings_normalized_update_cube
        headings_normalized_update_custom_object split: sdk_class.splits)
  show "heading_normalized w'" if "update_coords s rob world_obj sdk_o = Inr w'" for w'
    using that by (rule update_coords_normalized)
  show "\<exists>m mu sigma. (m, (mu, theta w, sigma)) \<in> set ms"
    if "infer_wall wall_marker_dict wall_id ms = Inr (Some w)" for w
    using that by (rule infer_wall_heading)
  show "headings_normalized (snd (generate_walls_from_markers wall_marker_dict wm))"
    if "orientations_normalized (landmarks (robot wm))"
    using that assms by (rule headings_normalized_generate_walls)
  show "headings_normalized (snd (update_map wall_marker_dict s wm))"
    if "orientations_normalized (landmarks (robot wm))"
    using that assms by (rule headings_normalized_update_map)
qed

text \<open>
  The cube scene with the three markers of the wall scene as landmarks, whose orientations
  are 1, 0 and 1, on the empty map.
\<close>

theorem headings_normalized_preserved_witness:
  "headings_normalized (snd (update_cube scene_sdk (WorldMap walls_robot) 0))
     \<and> headings_normalized (snd (update_custom_object scene_sdk (WorldMap walls_robot) 0))
     \<and> headings_normalized
         (snd (handle_object_observed scene_sdk (WorldMap walls_robot) \<lparr>obj = 0\<rparr>))
     \<and> (\<exists>w'. update_coords scene_sdk walls_robot
                (Some (LightCubeObj scene_sdk 0 (IntId 1) 0 0 0 0)) (objs scene_sdk 0) = Inr w'
             \<and> heading_normalized w')
     \<and> (\<exists>w. infer_wall scene_catalog 7 scene_markers = Inr (Some w) \<and> theta w = 0)
     \<and> headings_normalized (snd (generate_walls_from_markers scene_catalog (WorldMap walls_robot)))
     \<and> headings_normalized (snd (update_map scene_catalog scene_sdk (WorldMap walls_robot)))"
proof -
  have inv: "headings_normalized (WorldMap walls_robot)"
    by (simp add: headings_normalized_def WorldMap_def)
  have "1 \<le> pi" using pi_ge_two by linarith
  then have lm: "orientations_normalized (landmarks (robot (WorldMap walls_robot)))"
    using pi_gt_zero
    by (simp add: orientations_normalized_def WorldMap_def walls_robot_def scene_markers_def)
  have uc: "\<exists>w'. update_coords scene_sdk walls_robot
                (Some (LightCubeObj scene_sdk 0 (IntId 1) 0 0 0 0)) (objs scene_sdk 0) = Inr w'"
    by (simp add: update_coords_def scene_sdk_def Let_def split: prod.splits)
  have iw: "\<exists>w. infer_wall scene_catalog 7 scene_markers = Inr (Some w) \<and> theta w = 0"
    by (simp add: scene_markers_def scene_catalog_eq WallObj_def WorldObject_def Let_def)
  show ?thesis
    using headings_normalized_preserved [OF inv, of scene_sdk 0 "\<lparr>obj = 0\<rparr>" walls_robot
        "Some (LightCubeObj scene_sdk 0 (IntId 1) 0 0 0 0)" "objs scene_sdk 0"
        scene_catalog 7 scene_markers] lm uc iw
    by blast
qed

text \<open>
  Claim C5 as stated fails for wall inference: a marker with orientation 4, which is more
  than \<open>\<pi>\<close>, gives a wall with heading 4, and \<^verbatim>\<open>generate_walls_from_markers\<close> stores it
  in a map that satisfied the invariant.
\<close>

theorem headings_normalized_counterexample:
  "infer_wall scene_catalog 7 [(7, ((10, 0), 4, []))]
     = Inr (Some (WallObj (IntId 7) (10 + 80 * cos (4 - pi / 2)) (80 * sin (4 - pi / 2)) 4
                    200 210 75 105))
   \<and> \<not> heading_normalized (WallObj (IntId 7) (10 + 80 * cos (4 - pi / 2))
                              (80 * sin (4 - pi / 2)) 4 200 210 75 105)
   \<and> headings_normalized (WorldMap turned_robot)
   \<and> \<not> headings_normalized
         (snd (generate_walls_from_markers scene_catalog (WorldMap turned_robot)))"
proof (intro conjI)
  show "infer_wall scene_catalog 7 [(7, ((10, 0), 4, []))]
     = Inr (Some (WallObj (IntId 7) (10 + 80 * cos (4 - pi / 2)) (80 * sin (4 - pi / 2)) 4
                    200 210 75 105))"
    by (simp add: scene_catalog_eq WallObj_default_door_width_def Let_def)
  show "\<not> heading_normalized (WallObj (IntId 7) (10 + 80 * cos (4 - pi / 2))
                              (80 * sin (4 - pi / 2)) 4 200 210 75 105)"
    using pi_less_4 by (simp add: heading_normalized_def WallObj_def WorldObject_def)
  show "headings_normalized (WorldMap turned_robot)"
    by (simp add: headings_normalized_def WorldMap_def)
  have "objects (snd (generate_walls_from_markers scene_catalog (WorldMap turned_robot)))
          (IntKey 7)
        = Some (Some (WallObj (IntId 7) (10 + 80 * cos (4 - pi / 2)) (80 * sin (4 - pi / 2)) 4
                    200 210 75 105))"
    by (simp add: generate_walls_from_markers_def WorldMap_def turned_robot_def
        scene_robot_def scene_catalog_eq WallObj_default_door_width_def Let_def)
  moreover have "theta (WallObj (IntId 7) (10 + 80 * cos (4 - pi / 2))
                   (80 * sin (4 - pi / 2)) 4 200 210 75 105) = 4"
    by (simp add: WallObj_def WorldObject_def)
  ultimately show "\<not> headings_normalized
         (snd (generate_walls_from_markers scene_catalog (WorldMap turned_robot)))"
    unfolding headings_normalized_def heading_normalized_def
    using pi_less_4 by (metis not_le)
qed

subsection \<open>Repeated updates\<close>

text \<open>
  \<^verbatim>\<open>update_coords\<close> computes the coordinates from the detection and the robot only, so a
  second call on its own result returns that result. It succeeds whenever the detection has
  a pose and the object is not \<^verbatim>\<open>None\<close>.
\<close>

lemma update_coords_again:
  assumes "update_coords s rob (Some w) sdk_o = Inr w'"
  shows "update_coords s rob (Some w') sdk_o = Inr w'"
  using assms
  by (auto simp: update_coords_def Let_def split: option.splits prod.splits)

lemma update_coords_Some:
  assumes "pose sdk_o = Some p"
  shows "\<exists>w'. update_coords s rob (Some w) sdk_o = Inr w'"
  using assms by (simp add: update_coords_def Let_def split: prod.splits)

lemma update_stored_again:
  assumes "update_stored s wm h (Some w) = (None, wm')"
  shows "\<exists>w'. objects wm' (HandleKey h) = Some (Some w')
           \<and> update_stored s wm' h (Some w') = (None, wm')"
proof -
  obtain w' where c: "update_coords s (robot wm) (Some w) (objs s h) = Inr w'"
    and wm': "wm' = wm\<lparr>objects := (objects wm)(HandleKey h \<mapsto> Some w')\<rparr>"
    using assms by (auto simp: update_stored_def split: sum.splits)
  have "update_coords s (robot wm') (Some w') (objs s h) = Inr w'"
    using update_coords_again [OF c] by (simp add: wm')
  then show ?thesis
    by (simp add: update_stored_def wm')
qed

lemma update_stored_None: "fst (update_stored s wm h None) \<noteq> None"
  by (auto simp: update_stored_def update_coords_def Let_def split: option.splits prod.splits)

lemma update_stored_error: "update_stored s wm h world_obj = (Some e, wm') \<Longrightarrow> wm' = wm"
  by (auto simp: update_stored_def split: sum.splits)

lemma update_stored_Some_ok:
  assumes "pose (objs s h) = Some p"
    and "update_stored s wm0 h (Some w) = (Some e, wm')"
  shows False
  using update_coords_Some [OF assms(1), of s "robot wm0" w] assms(2)
  by (auto simp: update_stored_def)

text \<open>
  \<^verbatim>\<open>update_cube\<close> reads and writes the robot's data and the entry of its cube only.
\<close>

lemma update_cube_robot: "robot (snd (update_cube s wm cube)) = robot wm"
  by (auto simp: update_cube_def update_stored_def Let_def
      split: option.splits list.splits sum.splits)

lemma update_cube_other_keys:
  "k \<noteq> HandleKey cube \<Longrightarrow> objects (snd (update_cube s wm cube)) k = objects wm k"
  by (auto simp: update_cube_def update_stored_def Let_def
      split: option.splits list.splits sum.splits)

lemma update_cube_local:
  assumes "robot a = robot b"
    and "objects a (HandleKey cube) = objects b (HandleKey cube)"
  shows "fst (update_cube s a cube) = fst (update_cube s b cube)
       \<and> objects (snd (update_cube s a cube)) (HandleKey cube)
           = objects (snd (update_cube s b cube)) (HandleKey cube)"
  using assms
  by (auto simp: update_cube_def update_stored_def Let_def
      split: option.splits list.splits sum.splits)

lemma world_map_eqI:
  fixes a b :: world_map
  assumes "robot a = robot b" and "\<And>k. objects a k = objects b k"
  shows "a = b"
  using assms by (intro world_map.equality ext) simp_all

text \<open>
  When \<^verbatim>\<open>update_cube\<close> raises, the map is as before; when it returns, a second call
  returns with the same map.
\<close>

lemma update_cube_error_state:
  assumes "update_cube s wm cube = (Some e, wm')"
  shows "wm' = wm"
proof (cases "pose (objs s cube)")
  case None
  with assms show ?thesis by (simp add: update_cube_def)
next
  case (Some p)
  show ?thesis
  proof (cases "objects wm (HandleKey cube)")
    case None
    with assms Some show ?thesis
      by (auto simp: update_cube_def Let_def dest: update_stored_Some_ok [OF Some]
          split: if_splits list.splits)
  next
    case (Some world_obj)
    with assms \<open>pose (objs s cube) = Some p\<close> show ?thesis
      by (auto simp: update_cube_def dest: update_stored_error split: if_splits)
  qed
qed

lemma update_cube_success:
  assumes "update_cube s wm cube = (None, wm')"
  shows "wm' = wm
       \<or> (\<exists>w0 wm0. update_stored s wm0 cube (Some w0) = (None, wm') \<and> robot wm0 = robot wm)"
proof (cases "pose (objs s cube)")
  case None
  with assms show ?thesis by (simp add: update_cube_def)
next
  case (Some p)
  show ?thesis
  proof (cases "is_comparable s p (robot_pose (robot wm))")
    case False
    with assms Some show ?thesis by (simp add: update_cube_def)
  next
    case True
    show ?thesis
    proof (cases "objects wm (HandleKey cube)")
      case None
      show ?thesis
      proof (cases "cube_keys (light_cubes (robot wm)) cube")
        case Nil
        with assms Some True None show ?thesis by (simp add: update_cube_def)
      next
        case (Cons i ids)
        let ?new = "LightCubeObj s cube (IntId i) 0 0 0 0"
        let ?wm0 = "wm\<lparr>objects := (objects wm)(HandleKey cube \<mapsto> Some ?new)\<rparr>"
        have "update_stored s ?wm0 cube (Some ?new) = (None, wm')"
          using assms Some True None Cons by (simp add: update_cube_def Let_def)
        moreover have "robot ?wm0 = robot wm" by simp
        ultimately show ?thesis by blast
      qed
    next
      case (Some world_obj)
      then have st: "update_stored s wm cube world_obj = (None, wm')"
        using assms \<open>pose (objs s cube) = Some p\<close> True by (simp add: update_cube_def)
      then obtain w0 where "world_obj = Some w0"
        using update_stored_None [of s wm cube] by (cases world_obj) auto
      with st show ?thesis by blast
    qed
  qed
qed

lemma update_cube_fixed:
  assumes "update_cube s wm cube = (None, wm')"
  shows "update_cube s wm' cube = (None, wm')"
proof -
  consider "wm' = wm"
    | w0 wm0 where "update_stored s wm0 cube (Some w0) = (None, wm')" "robot wm0 = robot wm"
    using update_cube_success [OF assms] by blast
  then show ?thesis
  proof cases
    case 1
    with assms show ?thesis by simp
  next
    case 2
    obtain w' where e: "objects wm' (HandleKey cube) = Some (Some w')"
      and again: "update_stored s wm' cube (Some w') = (None, wm')"
      using update_stored_again [OF 2(1)] by blast
    have r: "robot wm' = robot wm"
      using update_cube_robot [of s wm cube] assms by simp
    show ?thesis
    proof (cases "pose (objs s cube)")
      case None
      then show ?thesis by (simp add: update_cube_def)
    next
      case (Some p)
      then show ?thesis
        using e again by (simp add: update_cube_def)
    qed
  qed
qed

lemma update_cube_idem: "update_cube s (snd (update_cube s wm cube)) cube = update_cube s wm cube"
proof (cases "update_cube s wm cube")
  case (Pair r wm')
  show ?thesis
  proof (cases r)
    case None
    with Pair show ?thesis using update_cube_fixed [of s wm cube wm'] by simp
  next
    case (Some e)
    with Pair show ?thesis using update_cube_error_state [of s wm cube e wm'] by simp
  qed
qed

text \<open>
  Updates of different cubes commute, so an entry that an update would leave as it is stays
  so during the loop over the other cubes.
\<close>

lemma update_cube_commute:
  assumes "c \<noteq> d"
    and "update_cube s w c = (None, w1)"
    and "update_cube s w d = (None, w2)"
  shows "\<exists>w3. update_cube s w1 d = (None, w3) \<and> update_cube s w2 c = (None, w3)"
proof -
  have r1: "robot w1 = robot w" and r2: "robot w2 = robot w"
    using update_cube_robot [of s w c] update_cube_robot [of s w d] assms by simp_all
  have o1: "objects w1 k = objects w k" if "k \<noteq> HandleKey c" for k
    using update_cube_other_keys [OF that, of s w] assms(2) by simp
  have o2: "objects w2 k = objects w k" if "k \<noteq> HandleKey d" for k
    using update_cube_other_keys [OF that, of s w] assms(3) by simp
  have ld: "fst (update_cube s w1 d) = None
          \<and> objects (snd (update_cube s w1 d)) (HandleKey d) = objects w2 (HandleKey d)"
    using update_cube_local [of w1 w d s] r1 o1 [of "HandleKey d"] assms by simp
  have lc: "fst (update_cube s w2 c) = None
          \<and> objects (snd (update_cube s w2 c)) (HandleKey c) = objects w1 (HandleKey c)"
    using update_cube_local [of w2 w c s] r2 o2 [of "HandleKey c"] assms by simp
  have "snd (update_cube s w1 d) = snd (update_cube s w2 c)"
  proof (rule world_map_eqI)
    show "robot (snd (update_cube s w1 d)) = robot (snd (update_cube s w2 c))"
      by (simp add: update_cube_robot r1 r2)
    fix k
    show "objects (snd (update_cube s w1 d)) k = objects (snd (update_cube s w2 c)) k"
    proof (cases "k = HandleKey d")
      case True
      then have "k \<noteq> HandleKey c" using assms(1) by simp
      then show ?thesis
        using True ld update_cube_other_keys [of k c s w2] by simp
    next
      case False
      note kd = this
      show ?thesis
      proof (cases "k = HandleKey c")
        case True
        then show ?thesis
          using kd lc update_cube_other_keys [of k d s w1] by simp
      next
        case False
        then show ?thesis
          using kd update_cube_other_keys [of k d s w1] update_cube_other_keys [of k c s w2]
            o1 [of k] o2 [of k] by simp
      qed
    qed
  qed
  then show ?thesis
    using ld lc by (metis prod.collapse)
qed

lemma update_cube_keeps_fixed:
  assumes "update_cube s w c = (None, w)"
    and "update_cube s w d = (None, w')"
  shows "update_cube s w' c = (None, w')"
proof (cases "c = d")
  case True
  with assms show ?thesis by simp
next
  case False
  from update_cube_commute [OF False assms] show ?thesis
    using assms(2) by auto
qed

lemma update_cubes_keep_fixed:
  assumes "update_cube s w c = (None, w)"
    and "update_cubes s cs w = (None, w')"
  shows "update_cube s w' c = (None, w')"
  using assms
proof (induction cs arbitrary: w)
  case Nil
  then show ?case by simp
next
  case (Cons a cs)
  obtain i d where a: "a = (i, d)" by (cases a)
  obtain r w1 where u: "update_cube s w d = (r, w1)" by (cases "update_cube s w d")
  with Cons.prems(2) have r: "r = None" and rest: "update_cubes s cs w1 = (None, w')"
    by (cases r; simp add: a)+
  have "update_cube s w1 c = (None, w1)"
    using update_cube_keeps_fixed [OF Cons.prems(1)] u r by simp
  from Cons.IH [OF this rest] show ?case .
qed

lemma update_cubes_fixed:
  assumes "update_cubes s cs w = (None, w')"
    and "c \<in> snd ` set cs"
  shows "update_cube s w' c = (None, w')"
  using assms
proof (induction cs arbitrary: w)
  case Nil
  then show ?case by simp
next
  case (Cons a cs)
  obtain i d where a: "a = (i, d)" by (cases a)
  obtain r w1 where u: "update_cube s w d = (r, w1)" by (cases "update_cube s w d")
  with Cons.prems(1) have r: "r = None" and rest: "update_cubes s cs w1 = (None, w')"
    by (cases r; simp add: a)+
  show ?case
  proof (cases "c \<in> snd ` set cs")
    case True
    from Cons.IH [OF rest True] show ?thesis .
  next
    case False
    with Cons.prems(2) have "c = d" by (simp add: a)
    then have "update_cube s w1 c = (None, w1)"
      using update_cube_fixed [of s w d w1] u r by simp
    from update_cubes_keep_fixed [OF this rest] show ?thesis .
  qed
qed

text \<open>
  The walls are stored under integer keys and do not depend on the map, so wall inference
  commutes with the update of a cube.
\<close>

lemma infer_walls_robot: "robot (snd (infer_walls wall_marker_dict seen wm)) = robot wm"
proof (induction seen arbitrary: wm)
  case Nil
  then show ?case by simp
next
  case (Cons g seen)
  then show ?case by (cases g) (simp split: sum.splits)
qed

lemma infer_walls_fst:
  "fst (infer_walls wall_marker_dict seen a) = fst (infer_walls wall_marker_dict seen b)"
proof (induction seen arbitrary: a b)
  case Nil
  then show ?case by simp
next
  case (Cons g seen)
  then show ?case by (cases g) (simp split: sum.splits)
qed

lemma infer_walls_objects:
  assumes "objects a k = objects b k"
  shows "objects (snd (infer_walls wall_marker_dict seen a)) k
       = objects (snd (infer_walls wall_marker_dict seen b)) k"
  using assms
proof (induction seen arbitrary: a b)
  case Nil
  then show ?case by simp
next
  case (Cons g seen)
  obtain wall_id ms where g: "g = (wall_id, ms)" by (cases g)
  show ?case
  proof (cases "infer_wall wall_marker_dict wall_id ms")
    case (Inl e)
    then show ?thesis using Cons.prems by (simp add: g)
  next
    case (Inr v)
    have "objects (a\<lparr>objects := (objects a)(IntKey wall_id \<mapsto> v)\<rparr>) k
        = objects (b\<lparr>objects := (objects b)(IntKey wall_id \<mapsto> v)\<rparr>) k"
      using Cons.prems by simp
    from Cons.IH [OF this] show ?thesis using Inr by (simp add: g)
  qed
qed

lemma infer_walls_handle_keys:
  "objects (snd (infer_walls wall_marker_dict seen wm)) (HandleKey h) = objects wm (HandleKey h)"
proof (induction seen arbitrary: wm)
  case Nil
  then show ?case by simp
next
  case (Cons g seen)
  then show ?case by (cases g) (simp split: sum.splits)
qed

lemma infer_walls_after_update_cube:
  assumes "update_cube s b cube = (None, a)"
  shows "update_cube s (snd (infer_walls wall_marker_dict seen b)) cube
       = (None, snd (infer_walls wall_marker_dict seen a))"
proof -
  let ?a' = "snd (infer_walls wall_marker_dict seen a)"
  let ?b' = "snd (infer_walls wall_marker_dict seen b)"
  have ra: "robot a = robot b"
    using update_cube_robot [of s b cube] assms by simp
  have oa: "objects a k = objects b k" if "k \<noteq> HandleKey cube" for k
    using update_cube_other_keys [OF that, of s b] assms by simp
  have loc: "fst (update_cube s ?b' cube) = None
           \<and> objects (snd (update_cube s ?b' cube)) (HandleKey cube) = objects a (HandleKey cube)"
    using update_cube_local [of ?b' b cube s] assms
    by (simp add: infer_walls_robot infer_walls_handle_keys)
  have "snd (update_cube s ?b' cube) = ?a'"
  proof (rule world_map_eqI)
    show "robot (snd (update_cube s ?b' cube)) = robot ?a'"
      by (simp add: update_cube_robot infer_walls_robot ra)
    fix k
    show "objects (snd (update_cube s ?b' cube)) k = objects ?a' k"
    proof (cases "k = HandleKey cube")
      case True
      then show ?thesis using loc by (simp add: infer_walls_handle_keys)
    next
      case False
      then show ?thesis
        using update_cube_other_keys [OF False, of s ?b']
          infer_walls_objects [OF oa [OF False], of wall_marker_dict seen]
        by simp
    qed
  qed
  then show ?thesis using loc by (metis prod.collapse)
qed

text \<open>
  The sweep \<^verbatim>\<open>update_map\<close> after an update of one of its cubes ends in the map of the
  sweep alone, and an update of one of its cubes after the sweep changes nothing.
\<close>

lemma update_cubes_after_update_cube:
  assumes "a = b \<or> update_cube s b cube = (None, a)"
    and "update_cubes s cs b = (None, b')"
  shows "\<exists>a'. update_cubes s cs a = (None, a')
           \<and> (a' = b' \<or> (cube \<notin> snd ` set cs \<and> update_cube s b' cube = (None, a')))"
  using assms
proof (induction cs arbitrary: a b)
  case Nil
  then show ?case by auto
next
  case (Cons x cs)
  obtain i c where x: "x = (i, c)" by (cases x)
  obtain r b1 where u: "update_cube s b c = (r, b1)" by (cases "update_cube s b c")
  with Cons.prems(2) have r: "r = None" and rest: "update_cubes s cs b1 = (None, b')"
    by (cases r; simp add: x)+
  show ?case
  proof (cases "a = b")
    case True
    with Cons.prems(2) show ?thesis by auto
  next
    case False
    with Cons.prems(1) have ab: "update_cube s b cube = (None, a)" by simp
    show ?thesis
    proof (cases "c = cube")
      case True
      then have "b1 = a" using ab u by simp
      moreover have "update_cube s a cube = (None, a)"
        using update_cube_fixed [OF ab] .
      ultimately have "update_cubes s (x # cs) a = (None, b')"
        using rest True by (simp add: x)
      then show ?thesis by blast
    next
      case False
      then have "cube \<noteq> c" by simp
      from update_cube_commute [OF this ab] u r
      obtain a1 where a1: "update_cube s a c = (None, a1)"
        and rel: "update_cube s b1 cube = (None, a1)"
        by auto
      from Cons.IH [of a1 b1] rel rest
      obtain a' where a': "update_cubes s cs a1 = (None, a')"
        and fin: "a' = b' \<or> (cube \<notin> snd ` set cs \<and> update_cube s b' cube = (None, a'))"
        by blast
      have "update_cubes s (x # cs) a = (None, a')"
        using a1 a' by (simp add: x)
      moreover have "a' = b' \<or> (cube \<notin> snd ` set (x # cs) \<and> update_cube s b' cube = (None, a'))"
        using fin False by (auto simp: x)
      ultimately show ?thesis by blast
    qed
  qed
qed

lemma update_map_success:
  assumes "update_map wall_marker_dict s wm = (None, wm')"
  shows "\<exists>b. generate_walls_from_markers wall_marker_dict wm = (None, b)
           \<and> robot b = robot wm
           \<and> update_cubes s (light_cubes (robot wm)) b = (None, wm')"
proof -
  obtain r b where g: "generate_walls_from_markers wall_marker_dict wm = (r, b)"
    by (cases "generate_walls_from_markers wall_marker_dict wm")
  have "b = snd (generate_walls_from_markers wall_marker_dict wm)"
    using g by simp
  then have rb: "robot b = robot wm"
    by (simp add: generate_walls_from_markers_def infer_walls_robot)
  show ?thesis
    using assms g rb by (cases r) (simp_all add: update_map_def)
qed

lemma update_map_then_update_cube:
  assumes "update_map wall_marker_dict s wm = (None, wm')"
    and "(i, cube) \<in> set (light_cubes (robot wm))"
  shows "update_cube s wm' cube = (None, wm')"
proof -
  obtain b where "update_cubes s (light_cubes (robot wm)) b = (None, wm')"
    using update_map_success [OF assms(1)] by blast
  moreover have "cube \<in> snd ` set (light_cubes (robot wm))"
    using assms(2) by force
  ultimately show ?thesis by (rule update_cubes_fixed)
qed

lemma update_cube_then_update_map:
  assumes "update_map wall_marker_dict s wm = (None, wm')"
    and "(i, cube) \<in> set (light_cubes (robot wm))"
  shows "update_map wall_marker_dict s (snd (update_cube s wm cube)) = (None, wm')"
proof -
  let ?a = "snd (update_cube s wm cube)"
  let ?seen = "distribute_markers wall_marker_dict (landmarks (robot wm)) []"
  obtain b where g: "generate_walls_from_markers wall_marker_dict wm = (None, b)"
    and rb: "robot b = robot wm"
    and cs: "update_cubes s (light_cubes (robot wm)) b = (None, wm')"
    using update_map_success [OF assms(1)] by blast
  have ra: "robot ?a = robot wm" by (rule update_cube_robot)
  have b: "b = snd (infer_walls wall_marker_dict ?seen wm)"
    and fb: "fst (infer_walls wall_marker_dict ?seen wm) = None"
    using g by (simp_all add: generate_walls_from_markers_def)
  define a1 where "a1 = snd (infer_walls wall_marker_dict ?seen ?a)"
  have ga: "generate_walls_from_markers wall_marker_dict ?a = (None, a1)"
    using infer_walls_fst [of wall_marker_dict ?seen ?a wm] fb
    by (simp add: generate_walls_from_markers_def ra a1_def prod_eq_iff)
  have ra1: "robot a1 = robot wm"
    by (simp add: a1_def infer_walls_robot ra)
  have rel: "a1 = b \<or> update_cube s b cube = (None, a1)"
  proof (cases "fst (update_cube s wm cube)")
    case None
    then have "update_cube s wm cube = (None, ?a)" by (simp add: prod_eq_iff)
    from infer_walls_after_update_cube [OF this, of wall_marker_dict ?seen]
    show ?thesis by (simp add: a1_def b)
  next
    case (Some e)
    then have "update_cube s wm cube = (Some e, ?a)" by (simp add: prod_eq_iff)
    then have "?a = wm" by (rule update_cube_error_state)
    then show ?thesis by (simp add: a1_def b)
  qed
  from update_cubes_after_update_cube [OF rel cs]
  obtain a' where a': "update_cubes s (light_cubes (robot wm)) a1 = (None, a')"
    and fin: "a' = wm' \<or> (cube \<notin> snd ` set (light_cubes (robot wm))
                \<and> update_cube s wm' cube = (None, a'))"
    by blast
  have "cube \<in> snd ` set (light_cubes (robot wm))"
    using assms(2) by force
  with fin have "a' = wm'" by simp
  then show ?thesis
    using ga a' ra1 by (simp add: update_map_def)
qed

lemma update_cube_new_ok:
  assumes "pose (objs s cube) = Some p"
    and "is_comparable s p (robot_pose (robot wm))"
    and "objects wm (HandleKey cube) = None"
    and "cube_keys (light_cubes (robot wm)) cube = i # ids"
  shows "fst (update_cube s wm cube) = None"
proof -
  let ?new = "LightCubeObj s cube (IntId i) 0 0 0 0"
  let ?wm0 = "wm\<lparr>objects := (objects wm)(HandleKey cube \<mapsto> Some ?new)\<rparr>"
  have "update_cube s wm cube = update_stored s ?wm0 cube (Some ?new)"
    using assms by (simp add: update_cube_def Let_def)
  moreover have "fst (update_stored s ?wm0 cube (Some ?new)) = None"
    using update_coords_Some [OF assms(1), of s "robot ?wm0" ?new]
    by (auto simp: update_stored_def)
  ultimately show ?thesis by simp
qed

text \<open>
  Claim C9. With the detection data and the robot's data unchanged, a second
  \<^verbatim>\<open>update_cube\<close> of the same cube gives the result of the first: the same map and the
  same outcome. For a light cube \<^verbatim>\<open>handle_object_observed\<close> is \<^verbatim>\<open>update_cube\<close>; when
  the cube is in \<^verbatim>\<open>light_cubes\<close> and the sweep \<^verbatim>\<open>update_map\<close> returns, the event handler
  after the sweep leaves the map of the sweep as it is, and the sweep after the event handler
  ends in the same map as the sweep alone.
\<close>

theorem update_cube_idempotent:
  "update_cube s (snd (update_cube s wm cube)) cube = update_cube s wm cube
   \<and> (cls (objs s cube) = LightCube \<longrightarrow>
        handle_object_observed s wm \<lparr>obj = cube\<rparr> = update_cube s wm cube
      \<and> (\<forall>i wm'. (i, cube) \<in> set (light_cubes (robot wm))
              \<and> update_map wall_marker_dict s wm = (None, wm') \<longrightarrow>
            handle_object_observed s wm' \<lparr>obj = cube\<rparr> = (None, wm')
          \<and> update_map wall_marker_dict s (snd (handle_object_observed s wm \<lparr>obj = cube\<rparr>))
              = (None, wm')))"
proof (intro conjI impI allI)
  show "update_cube s (snd (update_cube s wm cube)) cube = update_cube s wm cube"
    by (rule update_cube_idem)
next
  assume c: "cls (objs s cube) = LightCube"
  then show h: "handle_object_observed s wm' \<lparr>obj = cube\<rparr> = update_cube s wm' cube" for wm'
    by (simp add: handle_object_observed_def)
  fix i wm'
  assume a: "(i, cube) \<in> set (light_cubes (robot wm))
               \<and> update_map wall_marker_dict s wm = (None, wm')"
  show "handle_object_observed s wm' \<lparr>obj = cube\<rparr> = (None, wm')"
    using a update_map_then_update_cube [of wall_marker_dict s wm wm' i cube] h by simp
  show "update_map wall_marker_dict s (snd (handle_object_observed s wm \<lparr>obj = cube\<rparr>))
          = (None, wm')"
    using a update_cube_then_update_map [of wall_marker_dict s wm wm' i cube] h by simp
qed

text \<open>
  The cube scene with the landmarks of the wall scene, on the empty map: the sweep returns,
  and cube 1 (handle 0) is in \<^verbatim>\<open>light_cubes\<close>.
\<close>

theorem update_cube_idempotent_witness:
  "update_cube scene_sdk (snd (update_cube scene_sdk (WorldMap walls_robot) 0)) 0
     = update_cube scene_sdk (WorldMap walls_robot) 0
   \<and> handle_object_observed scene_sdk (WorldMap walls_robot) \<lparr>obj = 0\<rparr>
       = update_cube scene_sdk (WorldMap walls_robot) 0
   \<and> (\<exists>wm'. update_map scene_catalog scene_sdk (WorldMap walls_robot) = (None, wm')
         \<and> handle_object_observed scene_sdk wm' \<lparr>obj = 0\<rparr> = (None, wm')
         \<and> update_map scene_catalog scene_sdk
             (snd (handle_object_observed scene_sdk (WorldMap walls_robot) \<lparr>obj = 0\<rparr>))
             = (None, wm'))"
proof -
  let ?wm = "WorldMap walls_robot"
  have c: "cls (objs scene_sdk 0) = LightCube"
    by (simp add: scene_sdk_def)
  have m: "(1, 0) \<in> set (light_cubes (robot ?wm))"
    by (simp add: WorldMap_def walls_robot_def scene_robot_def)
  obtain r b where gen: "generate_walls_from_markers scene_catalog ?wm = (r, b)"
    by (cases "generate_walls_from_markers scene_catalog ?wm")
  have "fst (generate_walls_from_markers scene_catalog ?wm) = None"
    by (simp add: generate_walls_from_markers_def WorldMap_def walls_robot_def
        scene_markers_def scene_catalog_eq Let_def)
  with gen have r: "r = None" by simp
  have b: "b = snd (infer_walls scene_catalog
                 (distribute_markers scene_catalog (landmarks (robot ?wm)) []) ?wm)"
    using gen by (simp add: generate_walls_from_markers_def)
  have rb: "robot b = walls_robot"
    by (simp add: b infer_walls_robot WorldMap_def)
  have ob: "objects b (HandleKey 0) = None"
    by (simp add: b infer_walls_handle_keys WorldMap_def)
  have "fst (update_cube scene_sdk b 0) = None"
  proof (rule update_cube_new_ok)
    show "pose (objs scene_sdk 0) = Some \<lparr>x_y_z = (30, 0, 0), angle_z = pi / 2\<rparr>"
      by (simp add: scene_sdk_def)
    show "is_comparable scene_sdk \<lparr>x_y_z = (30, 0, 0), angle_z = pi / 2\<rparr>
            (robot_pose (robot b))"
      by (simp add: scene_sdk_def)
    show "objects b (HandleKey 0) = None" by (rule ob)
    show "cube_keys (light_cubes (robot b)) 0 = 1 # []"
      by (simp add: rb walls_robot_def scene_robot_def cube_keys_def)
  qed
  then obtain wm' where "update_cube scene_sdk b 0 = (None, wm')"
    by (cases "update_cube scene_sdk b 0") simp
  then have um: "update_map scene_catalog scene_sdk ?wm = (None, wm')"
    using gen r by (simp add: update_map_def rb walls_robot_def scene_robot_def)
  show ?thesis
    using update_cube_idempotent [of scene_sdk ?wm 0 scene_catalog] c m um
    by blast
qed

end
